theory Spec2Isabelle
  imports Main
begin

section \<open>The stdio request/response server of skills/test-mcp/server.py\<close>

text \<open>
  The server reads standard input line by line, decodes each line with \<^verbatim>\<open>json.loads\<close>,
  hands the decoded value to \<^verbatim>\<open>handle_request\<close> and prints at most one response. The
  embedding follows the two functions of the file, \<^verbatim>\<open>handle_request\<close> and \<^verbatim>\<open>main\<close>,
  together with the Python operations they apply to decoded values (\<^verbatim>\<open>.get\<close>,
  \<^verbatim>\<open>in\<close>, subscription, \<^verbatim>\<open>+\<close>, string formatting). Every exception the source can
  raise is a value: a function that can raise returns \<open>exn + 'a\<close>, with \<open>Inl\<close> the exception.
\<close>

subsection \<open>Python values as produced by json.loads\<close>

text \<open>
  A decoded line is one of Python's \<^verbatim>\<open>None\<close>, \<^verbatim>\<open>bool\<close>, \<^verbatim>\<open>int\<close> (unbounded),
  \<^verbatim>\<open>float\<close>, \<^verbatim>\<open>str\<close>, \<^verbatim>\<open>list\<close> or \<^verbatim>\<open>dict\<close> with string keys. A dict is an
  association list in insertion order; a Python dict holds a key once, and on a list that
  binds a key twice the model reads the first binding. Floats are kept opaque: their carrier
  is the type parameter \<open>'f\<close>.
\<close>

datatype 'f pyval =
    PNone
  | PBool bool
  | PInt int
  | PFloat 'f
  | PStr string
  | PList "'f pyval list"
  | PDict "(string \<times> 'f pyval) list"

text \<open>
  The exceptions the two functions can meet, each with what it needs to print its message.
  The message texts are those of CPython 3.11.
\<close>

datatype exn =
    AttributeError string
  | TypeError string
  | KeyError string
  | OverflowError string
  | ValueError string
  | RecursionError string
  | UnboundLocalError string

text \<open>
  The interpreter's operations that the server relies on and whose results are not fixed
  by the source: float addition, the conversion of an int to a float (\<open>None\<close> when the
  int is too large, where Python raises \<^verbatim>\<open>OverflowError\<close>), \<^verbatim>\<open>repr\<close> of a float and
  \<^verbatim>\<open>repr\<close> of a string. They are a parameter of the model, and every theorem below holds
  for each choice of them.
\<close>

record 'f builtins =
  float_add :: "'f \<Rightarrow> 'f \<Rightarrow> 'f"
  float_of_int :: "int \<Rightarrow> 'f option"
  float_repr :: "'f \<Rightarrow> string"
  str_repr :: "string \<Rightarrow> string"

text \<open>
  The outcome of \<^verbatim>\<open>json.loads(line.strip())\<close> on one input line. The decoder returns
  a value, or raises \<^verbatim>\<open>json.JSONDecodeError\<close>, or raises another exception: it raises
  \<^verbatim>\<open>RecursionError\<close> on a line nested too deeply and \<^verbatim>\<open>ValueError\<close> on an int
  literal of more than 4300 digits, and neither is a \<^verbatim>\<open>JSONDecodeError\<close>. The decoder
  is the library's and is not modelled further; a session is the list of these outcomes,
  one per line read.
\<close>

datatype 'f loads_result = JSONDecodeError | Raised exn | Loaded "'f pyval"

subsection \<open>Python operations on decoded values\<close>

definition quote :: "string \<Rightarrow> string" where
  "quote s = CHR 0x27 # s @ [CHR 0x27]"

definition dquote :: "string \<Rightarrow> string" where
  "dquote s = CHR 0x22 # s @ [CHR 0x22]"

fun type_name :: "'f pyval \<Rightarrow> string" where
  "type_name PNone = ''NoneType''"
| "type_name (PBool _) = ''bool''"
| "type_name (PInt _) = ''int''"
| "type_name (PFloat _) = ''float''"
| "type_name (PStr _) = ''str''"
| "type_name (PList _) = ''list''"
| "type_name (PDict _) = ''dict''"

text \<open>\<^verbatim>\<open>str(e)\<close> for an exception: its message; for a \<^verbatim>\<open>KeyError\<close>, \<^verbatim>\<open>repr\<close> of the key.\<close>

fun str_exn :: "'f builtins \<Rightarrow> exn \<Rightarrow> string" where
  "str_exn B (AttributeError m) = m"
| "str_exn B (TypeError m) = m"
| "str_exn B (KeyError k) = str_repr B k"
| "str_exn B (OverflowError m) = m"
| "str_exn B (ValueError m) = m"
| "str_exn B (RecursionError m) = m"
| "str_exn B (UnboundLocalError m) = m"

text \<open>\<^verbatim>\<open>d.get(k, default)\<close> on a dict.\<close>

definition dict_get :: "(string \<times> 'f pyval) list \<Rightarrow> string \<Rightarrow> 'f pyval \<Rightarrow> 'f pyval" where
  "dict_get kvs k d = (case map_of kvs k of None \<Rightarrow> d | Some v \<Rightarrow> v)"

text \<open>
  \<^verbatim>\<open>v.get(k, default)\<close> on any decoded value: only a dict has the attribute.
\<close>

fun py_get :: "'f pyval \<Rightarrow> string \<Rightarrow> 'f pyval \<Rightarrow> exn + 'f pyval" where
  "py_get (PDict kvs) k d = Inr (dict_get kvs k d)"
| "py_get v k d =
     Inl (AttributeError (quote (type_name v) @ '' object has no attribute '' @ quote ''get''))"

text \<open>Is \<open>s\<close> a contiguous part of \<open>t\<close>: Python's \<^verbatim>\<open>s in t\<close> on two strings.\<close>

fun starts_with :: "string \<Rightarrow> string \<Rightarrow> bool" where
  "starts_with t [] = True"
| "starts_with [] (c # s) = False"
| "starts_with (d # t) (c # s) = (d = c \<and> starts_with t s)"

fun substring :: "string \<Rightarrow> string \<Rightarrow> bool" where
  "substring s [] = (s = [])"
| "substring s (d # t) = (starts_with (d # t) s \<or> substring s t)"

text \<open>
  \<^verbatim>\<open>k in v\<close> for a string \<open>k\<close>: key membership on a dict, element membership on a
  list, substring on a string, \<^verbatim>\<open>TypeError\<close> on everything else.
\<close>

fun py_contains :: "'f pyval \<Rightarrow> string \<Rightarrow> exn + bool" where
  "py_contains (PDict kvs) k = Inr (k \<in> fst ` set kvs)"
| "py_contains (PList xs) k = Inr (PStr k \<in> set xs)"
| "py_contains (PStr t) k = Inr (substring k t)"
| "py_contains v k =
     Inl (TypeError (''argument of type '' @ quote (type_name v) @ '' is not iterable''))"

text \<open>\<^verbatim>\<open>v[k]\<close> for a string \<open>k\<close>.\<close>

fun py_getitem :: "'f pyval \<Rightarrow> string \<Rightarrow> exn + 'f pyval" where
  "py_getitem (PDict kvs) k = (case map_of kvs k of None \<Rightarrow> Inl (KeyError k) | Some v \<Rightarrow> Inr v)"
| "py_getitem (PList xs) k = Inl (TypeError ''list indices must be integers or slices, not str'')"
| "py_getitem (PStr t) k = Inl (TypeError (''string indices must be integers, not '' @ quote ''str''))"
| "py_getitem v k = Inl (TypeError (quote (type_name v) @ '' object is not subscriptable''))"

subsection \<open>Formatting\<close>

text \<open>Decimal digits of an int, as \<^verbatim>\<open>str\<close> and \<^verbatim>\<open>repr\<close> print it.\<close>

definition digit :: "nat \<Rightarrow> char" where
  "digit n = char_of (48 + n)"

function str_nat :: "nat \<Rightarrow> string" where
  "str_nat n = (if n < 10 then [digit n] else str_nat (n div 10) @ [digit (n mod 10)])"
  by pat_completeness auto
termination
  by (relation "measure id") auto

definition str_int :: "int \<Rightarrow> string" where
  "str_int i = (if i < 0 then CHR ''-'' # str_nat (nat (- i)) else str_nat (nat i))"

text \<open>\<^verbatim>\<open>sep.join(xs)\<close>.\<close>

fun join :: "string \<Rightarrow> string list \<Rightarrow> string" where
  "join sep [] = []"
| "join sep [x] = x"
| "join sep (x # y # ys) = x @ sep @ join sep (y # ys)"

text \<open>\<^verbatim>\<open>repr(v)\<close>: a list and a dict print the \<^verbatim>\<open>repr\<close> of their parts.\<close>

fun py_repr :: "'f builtins \<Rightarrow> 'f pyval \<Rightarrow> string" where
  "py_repr B PNone = ''None''"
| "py_repr B (PBool b) = (if b then ''True'' else ''False'')"
| "py_repr B (PInt i) = str_int i"
| "py_repr B (PFloat x) = float_repr B x"
| "py_repr B (PStr s) = str_repr B s"
| "py_repr B (PList xs) = ''['' @ join '', '' (map (py_repr B) xs) @ '']''"
| "py_repr B (PDict kvs) =
     ''{'' @ join '', '' (map (\<lambda>kv. str_repr B (fst kv) @ '': '' @ py_repr B (snd kv)) kvs) @ ''}''"

text \<open>
  \<^verbatim>\<open>f"{v}"\<close>, which is \<^verbatim>\<open>str(v)\<close> for these types: a string prints as itself,
  everything else as its \<^verbatim>\<open>repr\<close>.
\<close>

fun py_str :: "'f builtins \<Rightarrow> 'f pyval \<Rightarrow> string" where
  "py_str B (PStr s) = s"
| "py_str B v = py_repr B v"

text \<open>
  The interpreter refuses to print an int of more than 4300 decimal digits, the sign not
  counted: the conversion raises \<^verbatim>\<open>ValueError\<close>. The decoder refuses such a literal
  as well, so a decoded value holds no such int, and among the values the server formats
  only the operands and the sum of \<^verbatim>\<open>add\<close> are tested against the limit.
\<close>

fun over_limit :: "'f pyval \<Rightarrow> bool" where
  "over_limit (PInt i) = (4300 < length (str_nat (nat \<bar>i\<bar>)))"
| "over_limit v = False"

definition int_str_limit_error :: exn where
  "int_str_limit_error =
     ValueError (''Exceeds the limit (4300 digits) for integer string conversion; ''
       @ ''use sys.set_int_max_str_digits() to increase the limit'')"

subsection \<open>Addition\<close>

text \<open>
  \<^verbatim>\<open>a + b\<close>. A bool is an int (\<^verbatim>\<open>True\<close> is 1); two ints add exactly; when a float is
  involved the int operand is converted first, which can overflow; two strings and two lists
  concatenate; every other pair raises \<^verbatim>\<open>TypeError\<close>, with the message of the left
  operand's sequence concatenation when that operand is a string or a list.
\<close>

fun as_int :: "'f pyval \<Rightarrow> int option" where
  "as_int (PInt i) = Some i"
| "as_int (PBool b) = Some (if b then 1 else 0)"
| "as_int v = None"

fun as_float :: "'f builtins \<Rightarrow> 'f pyval \<Rightarrow> (exn + 'f) option" where
  "as_float B (PFloat x) = Some (Inr x)"
| "as_float B v =
     (case as_int v of
        None \<Rightarrow> None
      | Some i \<Rightarrow>
          (case float_of_int B i of
             None \<Rightarrow> Some (Inl (OverflowError ''int too large to convert to float''))
           | Some y \<Rightarrow> Some (Inr y)))"

definition add_type_error :: "'f pyval \<Rightarrow> 'f pyval \<Rightarrow> exn" where
  "add_type_error a b =
     (case a of
        PStr s \<Rightarrow>
          TypeError (''can only concatenate str (not '' @ dquote (type_name b) @ '') to str'')
      | PList xs \<Rightarrow>
          TypeError (''can only concatenate list (not '' @ dquote (type_name b) @ '') to list'')
      | _ \<Rightarrow>
          TypeError (''unsupported operand type(s) for +: '' @ quote (type_name a) @ '' and ''
            @ quote (type_name b)))"

definition py_add :: "'f builtins \<Rightarrow> 'f pyval \<Rightarrow> 'f pyval \<Rightarrow> exn + 'f pyval" where
  "py_add B a b =
     (case (as_int a, as_int b) of
        (Some i, Some j) \<Rightarrow> Inr (PInt (i + j))
      | _ \<Rightarrow>
        (case (as_float B a, as_float B b) of
           (Some x, Some y) \<Rightarrow>
             (case x of
                Inl e \<Rightarrow> Inl e
              | Inr x' \<Rightarrow> (case y of Inl e \<Rightarrow> Inl e | Inr y' \<Rightarrow> Inr (PFloat (float_add B x' y'))))
         | _ \<Rightarrow>
           (case (a, b) of
              (PStr s, PStr t) \<Rightarrow> Inr (PStr (s @ t))
            | (PList xs, PList ys) \<Rightarrow> Inr (PList (xs @ ys))
            | _ \<Rightarrow> Inl (add_type_error a b))))"

subsection \<open>handle_request\<close>

text \<open>The dict literal returned for \<^verbatim>\<open>initialize\<close>.\<close>

definition initialize_result :: "'f pyval" where
  "initialize_result =
     PDict [(''protocolVersion'', PStr ''2024-11-05''),
            (''capabilities'', PDict [(''tools'', PDict [])]),
            (''serverInfo'', PDict [(''name'', PStr ''test-mcp''), (''version'', PStr ''1.0.0'')])]"

text \<open>The dict literal returned for \<^verbatim>\<open>tools/list\<close>: the descriptors of the two tools.\<close>

definition tools_list_result :: "'f pyval" where
  "tools_list_result =
     PDict [(''tools'', PList [
       PDict [(''name'', PStr ''echo''),
              (''description'', PStr ''Echoes back the input text''),
              (''inputSchema'', PDict [
                 (''type'', PStr ''object''),
                 (''properties'', PDict [
                    (''text'', PDict [(''type'', PStr ''string''),
                                      (''description'', PStr ''The text to echo'')])]),
                 (''required'', PList [PStr ''text''])])],
       PDict [(''name'', PStr ''add''),
              (''description'', PStr ''Adds two numbers together''),
              (''inputSchema'', PDict [
                 (''type'', PStr ''object''),
                 (''properties'', PDict [
                    (''a'', PDict [(''type'', PStr ''number''),
                                   (''description'', PStr ''First number'')]),
                    (''b'', PDict [(''type'', PStr ''number''),
                                   (''description'', PStr ''Second number'')])]),
                 (''required'', PList [PStr ''a'', PStr ''b''])])]])]"

text \<open>The content of a tool result: one text item.\<close>

definition text_content :: "string \<Rightarrow> 'f pyval" where
  "text_content t = PList [PDict [(''type'', PStr ''text''), (''text'', PStr t)]]"

text \<open>
  The \<^verbatim>\<open>tools/call\<close> branch (lines 59 to 79). Each \<^verbatim>\<open>.get\<close> can raise when its
  receiver is not a dict, \<^verbatim>\<open>a + b\<close> can raise, and so can the formatting of the
  operands and the sum, when one of them is an int over the limit.
\<close>

definition tools_call :: "'f builtins \<Rightarrow> 'f pyval \<Rightarrow> exn + 'f pyval" where
  "tools_call B req =
     (case py_get req ''params'' (PDict []) of
        Inl e \<Rightarrow> Inl e
      | Inr params \<Rightarrow>
     (case py_get params ''name'' (PStr []) of
        Inl e \<Rightarrow> Inl e
      | Inr tool_name \<Rightarrow>
     (case py_get params ''arguments'' (PDict []) of
        Inl e \<Rightarrow> Inl e
      | Inr args \<Rightarrow>
          if tool_name = PStr ''echo'' then
            (case py_get args ''text'' (PStr []) of
               Inl e \<Rightarrow> Inl e
             | Inr text \<Rightarrow> Inr (PDict [(''content'', text_content (''Echo: '' @ py_str B text))]))
          else if tool_name = PStr ''add'' then
            (case py_get args ''a'' (PInt 0) of
               Inl e \<Rightarrow> Inl e
             | Inr a \<Rightarrow>
            (case py_get args ''b'' (PInt 0) of
               Inl e \<Rightarrow> Inl e
             | Inr b \<Rightarrow>
            (case py_add B a b of
               Inl e \<Rightarrow> Inl e
             | Inr result \<Rightarrow>
                 if over_limit a \<or> over_limit b \<or> over_limit result
                 then Inl int_str_limit_error
                 else
                   Inr (PDict [(''content'',
                     text_content (''Result: '' @ py_str B a @ '' + '' @ py_str B b @ '' = ''
                       @ py_str B result))]))))
          else
            Inr (PDict [(''content'', text_content (''Unknown tool: '' @ py_str B tool_name)),
                        (''isError'', PBool True)]))))"

text \<open>
  \<^verbatim>\<open>handle_request(req)\<close>. Python's \<^verbatim>\<open>None\<close> is \<open>PNone\<close>; the comparison of the
  method with a string literal is true only of that string.
\<close>

definition handle_request :: "'f builtins \<Rightarrow> 'f pyval \<Rightarrow> exn + 'f pyval" where
  "handle_request B req =
     (case py_get req ''method'' (PStr []) of
        Inl e \<Rightarrow> Inl e
      | Inr method \<Rightarrow>
          if method = PStr ''initialize'' then Inr initialize_result
          else if method = PStr ''notifications/initialized'' then Inr PNone
          else if method = PStr ''tools/list'' then Inr tools_list_result
          else if method = PStr ''tools/call'' then tools_call B req
          else Inr (PDict []))"

subsection \<open>main\<close>

text \<open>
  The body of the \<^verbatim>\<open>try\<close> (lines 87 to 96), once the line is decoded: the list holds
  what is printed, each entry the dict handed to \<^verbatim>\<open>json.dumps\<close>.
\<close>

definition main_try :: "'f builtins \<Rightarrow> 'f pyval \<Rightarrow> exn + 'f pyval list" where
  "main_try B req =
     (case handle_request B req of
        Inl e \<Rightarrow> Inl e
      | Inr result \<Rightarrow>
     (case py_contains req ''id'' of
        Inl e \<Rightarrow> Inl e
      | Inr has_id \<Rightarrow>
          if has_id \<and> result \<noteq> PNone then
            (case py_getitem req ''id'' of
               Inl e \<Rightarrow> Inl e
             | Inr i \<Rightarrow>
                 Inr [PDict [(''jsonrpc'', PStr ''2.0''), (''id'', i), (''result'', result)]])
          else Inr []))"

text \<open>
  The handler \<^verbatim>\<open>except Exception as e\<close> (lines 99 to 106). An exception raised here is
  caught by nothing: it leaves \<^verbatim>\<open>main\<close>.
\<close>

definition main_except :: "'f builtins \<Rightarrow> 'f pyval \<Rightarrow> exn \<Rightarrow> exn + 'f pyval list" where
  "main_except B req e =
     (case py_contains req ''id'' of
        Inl e' \<Rightarrow> Inl e'
      | Inr has_id \<Rightarrow>
          if has_id then
            (case py_get req ''id'' PNone of
               Inl e' \<Rightarrow> Inl e'
             | Inr i \<Rightarrow>
                 Inr [PDict [(''jsonrpc'', PStr ''2.0''), (''id'', i),
                             (''error'', PDict [(''code'', PInt (- 32603)),
                                                (''message'', PStr (str_exn B e))])]])
          else Inr [])"

text \<open>
  One iteration of the loop. The variable \<^verbatim>\<open>req\<close> of \<^verbatim>\<open>main\<close> outlives the
  iteration: \<open>req\<close> is its binding when the iteration starts, \<open>None\<close> while nothing has
  been decoded. The result is \<open>Inr out\<close> when the iteration ends normally, having printed
  \<open>out\<close>, and \<open>Inl e\<close> when \<open>e\<close> escapes the iteration, having printed nothing. When the
  decoder raises anything but \<^verbatim>\<open>JSONDecodeError\<close>, the handler runs on the binding left
  by an earlier line; with no binding, reading \<^verbatim>\<open>req\<close> raises \<^verbatim>\<open>UnboundLocalError\<close>
  inside the handler.
\<close>

fun main_step :: "'f builtins \<Rightarrow> 'f pyval option \<Rightarrow> 'f loads_result \<Rightarrow> exn + 'f pyval list" where
  "main_step B req JSONDecodeError = Inr []"
| "main_step B req (Raised e) =
     (case req of
        None \<Rightarrow>
          Inl (UnboundLocalError (''cannot access local variable '' @ quote ''req''
                 @ '' where it is not associated with a value''))
      | Some old \<Rightarrow> main_except B old e)"
| "main_step B req (Loaded new) =
     (case main_try B new of
        Inl e \<Rightarrow> main_except B new e
      | Inr out \<Rightarrow> Inr out)"

text \<open>
  The binding of \<^verbatim>\<open>req\<close> after an iteration: the assignment of line 86 happens
  exactly when the decoder returns.
\<close>

fun bind_req :: "'f pyval option \<Rightarrow> 'f loads_result \<Rightarrow> 'f pyval option" where
  "bind_req req (Loaded new) = Some new"
| "bind_req req l = req"

text \<open>
  The loop over the lines of standard input, from a binding of \<^verbatim>\<open>req\<close>: everything
  printed, and the exception that ended the process, if one did. Lines after an escaping
  exception are not read.
\<close>

fun main_loop ::
  "'f builtins \<Rightarrow> 'f pyval option \<Rightarrow> 'f loads_result list \<Rightarrow> 'f pyval list \<times> exn option" where
  "main_loop B req [] = ([], None)"
| "main_loop B req (l # ls) =
     (case main_step B req l of
        Inl e \<Rightarrow> ([], Some e)
      | Inr out \<Rightarrow> (case main_loop B (bind_req req l) ls of (outs, r) \<Rightarrow> (out @ outs, r)))"

text \<open>\<^verbatim>\<open>main()\<close>: the loop, entered with \<^verbatim>\<open>req\<close> unbound.\<close>

definition main :: "'f builtins \<Rightarrow> 'f loads_result list \<Rightarrow> 'f pyval list \<times> exn option" where
  "main B ls = main_loop B None ls"

subsection \<open>Vocabulary of the properties\<close>

text \<open>A field of a printed response.\<close>

fun field :: "'f pyval \<Rightarrow> string \<Rightarrow> 'f pyval option" where
  "field (PDict kvs) k = map_of kvs k"
| "field v k = None"

text \<open>The names in a \<^verbatim>\<open>tools/list\<close> result, in the order listed.\<close>

fun listed_names :: "'f pyval \<Rightarrow> 'f pyval list" where
  "listed_names (PDict kvs) =
     (case map_of kvs ''tools'' of
        Some (PList ds) \<Rightarrow> map (\<lambda>d. case field d ''name'' of None \<Rightarrow> PNone | Some n \<Rightarrow> n) ds
      | _ \<Rightarrow> [])"
| "listed_names v = []"

text \<open>
  An instance of the interpreter's operations for evaluating concrete sessions whose lines
  hold no float and whose formatted values are no lists or dicts: the float carrier has one
  point, and \<open>str_repr\<close> puts a string without quotes, backslashes or control characters
  between single quotes.
\<close>

definition plain_builtins :: "unit builtins" where
  "plain_builtins =
     \<lparr>float_add = (\<lambda>x y. ()), float_of_int = (\<lambda>i. Some ()),
      float_repr = (\<lambda>x. ''nan''), str_repr = quote\<rparr>"

section \<open>Properties\<close>

subsection \<open>Requests that are dicts\<close>

lemma has_key_map_of: "(k \<in> fst ` set kvs) = (map_of kvs k \<noteq> None)"
  by (simp add: map_of_eq_None_iff)

text \<open>
  On a dict no operation of \<^verbatim>\<open>main\<close> itself raises, so an iteration is decided by
  what \<^verbatim>\<open>handle_request\<close> does and by the presence of the key \<^verbatim>\<open>id\<close>.
\<close>

lemma main_step_dict:
  "main_step B req (Loaded (PDict kvs)) =
     (case handle_request B (PDict kvs) of
        Inl e \<Rightarrow>
          Inr (if ''id'' \<in> fst ` set kvs
               then [PDict [(''jsonrpc'', PStr ''2.0''), (''id'', dict_get kvs ''id'' PNone),
                            (''error'', PDict [(''code'', PInt (- 32603)),
                                               (''message'', PStr (str_exn B e))])]]
               else [])
      | Inr result \<Rightarrow>
          Inr (if ''id'' \<in> fst ` set kvs \<and> result \<noteq> PNone
               then [PDict [(''jsonrpc'', PStr ''2.0''), (''id'', dict_get kvs ''id'' PNone),
                            (''result'', result)]]
               else []))"
  by (auto simp: main_try_def main_except_def dict_get_def has_key_map_of
           split: sum.splits option.splits)

lemma handle_request_dict:
  "handle_request B (PDict kvs) =
     (if dict_get kvs ''method'' (PStr []) = PStr ''initialize'' then Inr initialize_result
      else if dict_get kvs ''method'' (PStr []) = PStr ''notifications/initialized'' then Inr PNone
      else if dict_get kvs ''method'' (PStr []) = PStr ''tools/list'' then Inr tools_list_result
      else if dict_get kvs ''method'' (PStr []) = PStr ''tools/call'' then tools_call B (PDict kvs)
      else Inr (PDict []))"
  by (simp add: handle_request_def)

lemma tools_call_not_None: "tools_call B req \<noteq> Inr PNone"
  by (auto simp: tools_call_def split: sum.splits)

lemma handle_request_None:
  "handle_request B (PDict kvs) = Inr PNone \<longleftrightarrow>
     dict_get kvs ''method'' (PStr []) = PStr ''notifications/initialized''"
  by (auto simp: handle_request_dict tools_call_not_None initialize_result_def tools_list_result_def)

lemma main_step_with_id:
  assumes "map_of kvs ''id'' = Some i"
    and "dict_get kvs ''method'' (PStr []) \<noteq> PStr ''notifications/initialized''"
  shows "\<exists>resp. main_step B req (Loaded (PDict kvs)) = Inr [resp] \<and> field resp ''id'' = Some i"
proof -
  from assms(1) have key: "''id'' \<in> fst ` set kvs"
    by (simp add: has_key_map_of)
  from assms(1) have get: "dict_get kvs ''id'' PNone = i"
    by (simp add: dict_get_def)
  from assms(2) have res: "handle_request B (PDict kvs) \<noteq> Inr PNone"
    by (simp add: handle_request_None)
  show ?thesis
  proof (cases "handle_request B (PDict kvs)")
    case (Inl e)
    with key get show ?thesis unfolding main_step_dict by simp
  next
    case (Inr result)
    with res have "result \<noteq> PNone" by simp
    with Inr key get show ?thesis unfolding main_step_dict by simp
  qed
qed

lemma main_loop_Cons:
  "main_loop B req (l # ls) =
     (case main_step B req l of
        Inl e \<Rightarrow> ([], Some e)
      | Inr out \<Rightarrow>
          (out @ fst (main_loop B (bind_req req l) ls), snd (main_loop B (bind_req req l) ls)))"
  by (simp add: case_prod_beta split: sum.splits)

subsection \<open>One response per request with an id\<close>

text \<open>
  C1, as amended. A request (a decoded dict) that contains the key \<^verbatim>\<open>id\<close> and whose method
  is not \<^verbatim>\<open>notifications/initialized\<close> makes its iteration print exactly one response,
  and the \<^verbatim>\<open>id\<close> of that response is the request's. This covers a result and a
  reported fault of the handler alike.
\<close>

theorem C1_one_response_same_id:
  assumes "map_of kvs ''id'' = Some i"
    and "dict_get kvs ''method'' (PStr []) \<noteq> PStr ''notifications/initialized''"
  shows "\<exists>resp. main_step B req (Loaded (PDict kvs)) = Inr [resp] \<and> field resp ''id'' = Some i"
  using assms by (rule main_step_with_id)

text \<open>The theorem at the line \<^verbatim>\<open>{"jsonrpc":"2.0","id":1,"method":"initialize"}\<close>.\<close>

theorem C1_one_response_same_id_witness:
  "\<exists>resp. main_step plain_builtins None
       (Loaded (PDict [(''jsonrpc'', PStr ''2.0''), (''id'', PInt 1),
                       (''method'', PStr ''initialize'')])) = Inr [resp]
     \<and> field resp ''id'' = Some (PInt 1)"
  using C1_one_response_same_id
    [where kvs = "[(''jsonrpc'', PStr ''2.0''), (''id'', PInt 1),
                   (''method'', PStr ''initialize'')]"
       and i = "PInt 1" and B = plain_builtins and req = None]
  by (simp add: dict_get_def)

text \<open>
  C1 as stated fails at the line
  \<^verbatim>\<open>{"jsonrpc":"2.0","id":1,"method":"notifications/initialized"}\<close>: the decoded dict
  contains the key \<^verbatim>\<open>id\<close>, and the iteration prints nothing.
\<close>

theorem C1_counterexample:
  "py_contains (PDict [(''jsonrpc'', PStr ''2.0''), (''id'', PInt 1),
                       (''method'', PStr ''notifications/initialized'')]) ''id'' = Inr True
   \<and> main_step plain_builtins None
       (Loaded (PDict [(''jsonrpc'', PStr ''2.0''), (''id'', PInt 1),
                       (''method'', PStr ''notifications/initialized'')])) = Inr []"
  by (simp add: main_try_def handle_request_def dict_get_def)

subsection \<open>Requests without an id\<close>

text \<open>
  C2. A request (a decoded dict) that does not contain the key \<^verbatim>\<open>id\<close> makes its
  iteration print nothing, whatever \<^verbatim>\<open>handle_request\<close> does with it: return a result
  for a recognised method, or raise.
\<close>

theorem C2_no_id_no_response:
  assumes "''id'' \<notin> fst ` set kvs"
  shows "main_step B req (Loaded (PDict kvs)) = Inr []"
  using assms unfolding main_step_dict by (simp split: sum.splits)

text \<open>
  The theorem at \<^verbatim>\<open>{"jsonrpc":"2.0","method":"tools/list"}\<close>, where the handler
  succeeds, and at \<^verbatim>\<open>{"method":"tools/call","params":[]}\<close>, where it raises.
\<close>

theorem C2_no_id_no_response_witness:
  "handle_request plain_builtins
     (PDict [(''jsonrpc'', PStr ''2.0''), (''method'', PStr ''tools/list'')])
     = Inr tools_list_result
   \<and> main_step plain_builtins None
       (Loaded (PDict [(''jsonrpc'', PStr ''2.0''), (''method'', PStr ''tools/list'')])) = Inr []
   \<and> handle_request plain_builtins
       (PDict [(''method'', PStr ''tools/call''), (''params'', PList [])])
       = Inl (AttributeError (quote ''list'' @ '' object has no attribute '' @ quote ''get''))
   \<and> main_step plain_builtins None
       (Loaded (PDict [(''method'', PStr ''tools/call''), (''params'', PList [])])) = Inr []"
  using C2_no_id_no_response
      [where kvs = "[(''jsonrpc'', PStr ''2.0''), (''method'', PStr ''tools/list'')]"
         and B = plain_builtins and req = None]
    C2_no_id_no_response
      [where kvs = "[(''method'', PStr ''tools/call''), (''params'', PList [])]"
         and B = plain_builtins and req = None]
  by (simp add: handle_request_def tools_call_def dict_get_def)

subsection \<open>The initialized notification\<close>

text \<open>
  C3. For the method \<^verbatim>\<open>notifications/initialized\<close> the handler does nothing and returns
  \<^verbatim>\<open>None\<close>, and the iteration prints no response, whether or not the request carries
  an \<^verbatim>\<open>id\<close>.
\<close>

theorem C3_initialized_never_answered:
  assumes "dict_get kvs ''method'' (PStr []) = PStr ''notifications/initialized''"
  shows "handle_request B (PDict kvs) = Inr PNone \<and> main_step B req (Loaded (PDict kvs)) = Inr []"
proof -
  from assms have "handle_request B (PDict kvs) = Inr PNone"
    by (simp add: handle_request_None)
  then show ?thesis unfolding main_step_dict by simp
qed

text \<open>The theorem at \<^verbatim>\<open>{"id":42,"method":"notifications/initialized"}\<close>.\<close>

theorem C3_initialized_never_answered_witness:
  "map_of [(''id'', PInt 42), (''method'', PStr ''notifications/initialized'')] ''id''
     = Some (PInt 42 :: unit pyval)
   \<and> handle_request plain_builtins
       (PDict [(''id'', PInt 42), (''method'', PStr ''notifications/initialized'')]) = Inr PNone
   \<and> main_step plain_builtins None
       (Loaded (PDict [(''id'', PInt 42), (''method'', PStr ''notifications/initialized'')]))
       = Inr []"
  using C3_initialized_never_answered
      [where kvs = "[(''id'', PInt 42), (''method'', PStr ''notifications/initialized'')]"
         and B = plain_builtins and req = None]
  by (simp add: dict_get_def)

subsection \<open>Lines that end the session\<close>

text \<open>
  A line that does not decode is skipped, and a line that decodes to a dict never ends the
  session: a session of such lines runs to the end of its input.
\<close>

lemma main_JSONDecodeError: "main_loop B req (JSONDecodeError # ls) = main_loop B req ls"
  by simp

lemma main_step_dict_returns: "\<exists>out. main_step B req (Loaded (PDict kvs)) = Inr out"
  unfolding main_step_dict by (simp split: sum.splits)

lemma main_reads_all_dict_lines:
  assumes "list_all (\<lambda>l. case l of JSONDecodeError \<Rightarrow> True | Raised e \<Rightarrow> False
                          | Loaded v \<Rightarrow> (case v of PDict kvs \<Rightarrow> True | _ \<Rightarrow> False)) ls"
  shows "snd (main_loop B req ls) = None"
  using assms
proof (induction ls arbitrary: req)
  case Nil
  then show ?case by simp
next
  case (Cons l ls)
  then obtain out where "main_step B req l = Inr out"
    using main_step_dict_returns [of B req]
    by (auto split: loads_result.splits pyval.splits)
  with Cons show ?case
    by (simp add: main_loop_Cons del: main_loop.simps)
qed

text \<open>
  When the decoder raises anything but \<^verbatim>\<open>JSONDecodeError\<close>, the handler reads the
  \<^verbatim>\<open>req\<close> of an earlier line. On the first line there is none, and the session ends;
  after a dict, the handler answers with that dict's \<^verbatim>\<open>id\<close>.
\<close>

lemma main_Raised_first:
  "main B (Raised e # rest) =
     ([], Some (UnboundLocalError (''cannot access local variable '' @ quote ''req''
                  @ '' where it is not associated with a value'')))"
  by (simp add: main_def)

lemma main_step_Raised_stale:
  "main_step B (Some (PDict kvs)) (Raised e) =
     Inr (if ''id'' \<in> fst ` set kvs
          then [PDict [(''jsonrpc'', PStr ''2.0''), (''id'', dict_get kvs ''id'' PNone),
                       (''error'', PDict [(''code'', PInt (- 32603)),
                                          (''message'', PStr (str_exn B e))])]]
          else [])"
  by (simp add: main_except_def)

text \<open>
  C4 fails on the code. A line that decodes to an int, such as \<^verbatim>\<open>5\<close>, makes
  \<^verbatim>\<open>handle_request\<close> raise \<^verbatim>\<open>AttributeError\<close>; the handler of \<^verbatim>\<open>main\<close> then
  evaluates \<^verbatim>\<open>"id" in req\<close> on the int, which raises \<^verbatim>\<open>TypeError\<close> outside every
  \<^verbatim>\<open>try\<close>. The exception leaves \<^verbatim>\<open>main\<close>: nothing is printed and no later line is
  read, whatever the later lines are.
\<close>

theorem C4_int_line_ends_session:
  "main B (Loaded (PInt n) # rest)
     = ([], Some (TypeError (''argument of type '' @ quote ''int'' @ '' is not iterable'')))"
  by (simp add: main_def main_try_def main_except_def handle_request_def)

subsection \<open>Faults of the handler\<close>

text \<open>
  C5. When \<^verbatim>\<open>handle_request\<close> raises \<open>e\<close> on a request (a decoded dict), the iteration
  prints a response with \<^verbatim>\<open>error.code\<close> -32603 and \<^verbatim>\<open>error.message\<close> \<^verbatim>\<open>str(e)\<close>,
  echoing the request's \<^verbatim>\<open>id\<close>, exactly when the request contains the key \<^verbatim>\<open>id\<close>;
  otherwise it prints nothing. In both cases the iteration ends normally and the loop goes
  on with the remaining lines, \<^verbatim>\<open>req\<close> bound to this request.
\<close>

theorem C5_fault_reported_iff_id:
  assumes "handle_request B (PDict kvs) = Inl e"
  shows "main_step B req (Loaded (PDict kvs)) =
           Inr (if ''id'' \<in> fst ` set kvs
                then [PDict [(''jsonrpc'', PStr ''2.0''), (''id'', dict_get kvs ''id'' PNone),
                             (''error'', PDict [(''code'', PInt (- 32603)),
                                                (''message'', PStr (str_exn B e))])]]
                else [])
         \<and> main_loop B req (Loaded (PDict kvs) # rest) =
             ((if ''id'' \<in> fst ` set kvs
               then [PDict [(''jsonrpc'', PStr ''2.0''), (''id'', dict_get kvs ''id'' PNone),
                            (''error'', PDict [(''code'', PInt (- 32603)),
                                               (''message'', PStr (str_exn B e))])]]
               else []) @ fst (main_loop B (Some (PDict kvs)) rest),
              snd (main_loop B (Some (PDict kvs)) rest))"
proof -
  from assms have step: "main_step B req (Loaded (PDict kvs)) =
      Inr (if ''id'' \<in> fst ` set kvs
           then [PDict [(''jsonrpc'', PStr ''2.0''), (''id'', dict_get kvs ''id'' PNone),
                        (''error'', PDict [(''code'', PInt (- 32603)),
                                           (''message'', PStr (str_exn B e))])]]
           else [])"
    unfolding main_step_dict by simp
  show ?thesis unfolding main_loop_Cons step by simp
qed

text \<open>
  The theorem at \<^verbatim>\<open>{"id":7,"method":"tools/call","params":[]}\<close> and at the same
  request without its \<^verbatim>\<open>id\<close>, each at the start of a session and followed by a line
  on which the decoder raises \<^verbatim>\<open>RecursionError\<close> and by the line
  \<^verbatim>\<open>{"id":8,"method":"ping"}\<close>.
\<close>

theorem C5_fault_reported_iff_id_witness:
  "main plain_builtins
     [Loaded (PDict [(''id'', PInt 7), (''method'', PStr ''tools/call''), (''params'', PList [])]),
      Raised (RecursionError ''maximum recursion depth exceeded''),
      Loaded (PDict [(''id'', PInt 8), (''method'', PStr ''ping'')])]
   = ([PDict [(''jsonrpc'', PStr ''2.0''), (''id'', PInt 7),
              (''error'', PDict [(''code'', PInt (- 32603)),
                 (''message'', PStr (quote ''list'' @ '' object has no attribute ''
                    @ quote ''get''))])],
       PDict [(''jsonrpc'', PStr ''2.0''), (''id'', PInt 7),
              (''error'', PDict [(''code'', PInt (- 32603)),
                 (''message'', PStr ''maximum recursion depth exceeded'')])],
       PDict [(''jsonrpc'', PStr ''2.0''), (''id'', PInt 8), (''result'', PDict [])]], None)
   \<and> main plain_builtins
     [Loaded (PDict [(''method'', PStr ''tools/call''), (''params'', PList [])]),
      Raised (RecursionError ''maximum recursion depth exceeded''),
      Loaded (PDict [(''id'', PInt 8), (''method'', PStr ''ping'')])]
   = ([PDict [(''jsonrpc'', PStr ''2.0''), (''id'', PInt 8), (''result'', PDict [])]], None)"
proof -
  let ?next = "[Raised (RecursionError ''maximum recursion depth exceeded''),
                Loaded (PDict [(''id'', PInt 8), (''method'', PStr ''ping'')])]"
  let ?e = "AttributeError (quote ''list'' @ '' object has no attribute '' @ quote ''get'')"
  let ?k1 = "[(''id'', PInt 7), (''method'', PStr ''tools/call''), (''params'', PList [])]
               :: (string \<times> unit pyval) list"
  let ?k2 = "[(''method'', PStr ''tools/call''), (''params'', PList [])]
               :: (string \<times> unit pyval) list"
  have rest1: "main_loop plain_builtins (Some (PDict ?k1)) ?next
      = ([PDict [(''jsonrpc'', PStr ''2.0''), (''id'', PInt 7),
                 (''error'', PDict [(''code'', PInt (- 32603)),
                    (''message'', PStr ''maximum recursion depth exceeded'')])],
          PDict [(''jsonrpc'', PStr ''2.0''), (''id'', PInt 8), (''result'', PDict [])]], None)"
    by (simp add: main_except_def main_try_def handle_request_def dict_get_def)
  have rest2: "main_loop plain_builtins (Some (PDict ?k2)) ?next
      = ([PDict [(''jsonrpc'', PStr ''2.0''), (''id'', PInt 8), (''result'', PDict [])]], None)"
    by (simp add: main_except_def main_try_def handle_request_def dict_get_def)
  have f1: "handle_request plain_builtins (PDict ?k1) = Inl ?e"
    by (simp add: handle_request_def tools_call_def dict_get_def)
  have f2: "handle_request plain_builtins (PDict ?k2) = Inl ?e"
    by (simp add: handle_request_def tools_call_def dict_get_def)
  from C5_fault_reported_iff_id [OF f1, where req = None and rest = ?next]
    C5_fault_reported_iff_id [OF f2, where req = None and rest = ?next]
  show ?thesis unfolding main_def rest1 rest2 by (simp add: dict_get_def del: main_loop.simps)
qed

subsection \<open>Unknown tools\<close>

text \<open>
  C6. A \<^verbatim>\<open>tools/call\<close> request with an \<^verbatim>\<open>id\<close> whose \<^verbatim>\<open>params\<close> name a tool other
  than \<^verbatim>\<open>echo\<close> and \<^verbatim>\<open>add\<close> (the name defaults to the empty string) is answered by
  one response that has a \<^verbatim>\<open>result\<close> and no \<^verbatim>\<open>error\<close>; the result has
  \<^verbatim>\<open>isError\<close> true and one text item, \<^verbatim>\<open>Unknown tool:\<close> followed by the requested
  name as \<^verbatim>\<open>str\<close> prints it, which for a string is the string itself.
\<close>

theorem C6_unknown_tool_is_error_result:
  assumes "map_of kvs ''id'' = Some i"
    and "dict_get kvs ''method'' (PStr []) = PStr ''tools/call''"
    and "dict_get kvs ''params'' (PDict []) = PDict ps"
    and "dict_get ps ''name'' (PStr []) = n"
    and "n \<noteq> PStr ''echo''" and "n \<noteq> PStr ''add''"
  shows "main_step B req (Loaded (PDict kvs)) =
           Inr [PDict [(''jsonrpc'', PStr ''2.0''), (''id'', i),
                       (''result'',
                        PDict [(''content'',
                                PList [PDict [(''type'', PStr ''text''),
                                              (''text'', PStr (''Unknown tool: '' @ py_str B n))]]),
                               (''isError'', PBool True)])]]
         \<and> (\<forall>s. n = PStr s \<longrightarrow> py_str B n = s)"
proof -
  from assms(1) have key: "''id'' \<in> fst ` set kvs"
    by (simp add: has_key_map_of)
  from assms(1) have get: "dict_get kvs ''id'' PNone = i"
    by (simp add: dict_get_def)
  from assms(3-6) have "tools_call B (PDict kvs) =
      Inr (PDict [(''content'', text_content (''Unknown tool: '' @ py_str B n)),
                  (''isError'', PBool True)])"
    by (simp add: tools_call_def)
  with assms(2) have "handle_request B (PDict kvs) =
      Inr (PDict [(''content'', text_content (''Unknown tool: '' @ py_str B n)),
                  (''isError'', PBool True)])"
    by (simp add: handle_request_dict)
  with key get show ?thesis
    unfolding main_step_dict by (auto simp: text_content_def)
qed

text \<open>
  The theorem at
  \<^verbatim>\<open>{"jsonrpc":"2.0","id":3,"method":"tools/call","params":{"name":"bogus","arguments":{}}}\<close>.
\<close>

theorem C6_unknown_tool_is_error_result_witness:
  "main_step plain_builtins None
     (Loaded (PDict [(''jsonrpc'', PStr ''2.0''), (''id'', PInt 3),
                     (''method'', PStr ''tools/call''),
                     (''params'', PDict [(''name'', PStr ''bogus''), (''arguments'', PDict [])])]))
   = Inr [PDict [(''jsonrpc'', PStr ''2.0''), (''id'', PInt 3),
                 (''result'',
                  PDict [(''content'',
                          PList [PDict [(''type'', PStr ''text''),
                                        (''text'', PStr ''Unknown tool: bogus'')]]),
                         (''isError'', PBool True)])]]"
  using C6_unknown_tool_is_error_result
    [where kvs = "[(''jsonrpc'', PStr ''2.0''), (''id'', PInt 3),
                   (''method'', PStr ''tools/call''),
                   (''params'', PDict [(''name'', PStr ''bogus''), (''arguments'', PDict [])])]"
       and i = "PInt 3" and ps = "[(''name'', PStr ''bogus''), (''arguments'', PDict [])]"
       and n = "PStr ''bogus''" and B = plain_builtins and req = None]
  by (simp add: dict_get_def)

subsection \<open>Falsy ids\<close>

text \<open>
  C7, as amended. A request (a decoded dict) whose key \<^verbatim>\<open>id\<close> holds a falsy value
  (\<^verbatim>\<open>0\<close>, the empty string, \<^verbatim>\<open>false\<close>, \<^verbatim>\<open>null\<close>, an empty list or an empty dict)
  and whose method is not \<^verbatim>\<open>notifications/initialized\<close> is answered by exactly one
  response, which echoes that value as its \<^verbatim>\<open>id\<close>: the test is the presence of the key.
\<close>

theorem C7_falsy_id_is_answered:
  assumes "map_of kvs ''id'' = Some i"
    and "i \<in> {PInt 0, PStr [], PBool False, PNone, PList [], PDict []}"
    and "dict_get kvs ''method'' (PStr []) \<noteq> PStr ''notifications/initialized''"
  shows "\<exists>resp. main_step B req (Loaded (PDict kvs)) = Inr [resp] \<and> field resp ''id'' = Some i"
  using assms(1,3) by (rule main_step_with_id)

text \<open>
  The theorem at \<^verbatim>\<open>{"id":0,"method":"tools/list"}\<close> and at
  \<^verbatim>\<open>{"id":"","method":"ping"}\<close>.
\<close>

theorem C7_falsy_id_is_answered_witness:
  "(\<exists>resp. main_step plain_builtins None
        (Loaded (PDict [(''id'', PInt 0), (''method'', PStr ''tools/list'')])) = Inr [resp]
      \<and> field resp ''id'' = Some (PInt 0))
   \<and> (\<exists>resp. main_step plain_builtins None
        (Loaded (PDict [(''id'', PStr []), (''method'', PStr ''ping'')])) = Inr [resp]
      \<and> field resp ''id'' = Some (PStr []))"
  using C7_falsy_id_is_answered
      [where kvs = "[(''id'', PInt 0), (''method'', PStr ''tools/list'')]" and i = "PInt 0"
         and B = plain_builtins and req = None]
    C7_falsy_id_is_answered
      [where kvs = "[(''id'', PStr []), (''method'', PStr ''ping'')]" and i = "PStr []"
         and B = plain_builtins and req = None]
  by (simp add: dict_get_def)

text \<open>
  C7 as stated fails at \<^verbatim>\<open>{"id":0,"method":"notifications/initialized"}\<close>: the key
  \<^verbatim>\<open>id\<close> exists and holds 0, and the iteration prints nothing.
\<close>

theorem C7_counterexample:
  "map_of [(''id'', PInt 0), (''method'', PStr ''notifications/initialized'')] ''id''
     = Some (PInt 0 :: unit pyval)
   \<and> main_step plain_builtins None
       (Loaded (PDict [(''id'', PInt 0), (''method'', PStr ''notifications/initialized'')]))
       = Inr []"
  by (simp add: main_try_def handle_request_def dict_get_def)

subsection \<open>Unrecognised methods\<close>

text \<open>
  C8. A request (a decoded dict) with an \<^verbatim>\<open>id\<close> whose method is none of
  \<^verbatim>\<open>initialize\<close>, \<^verbatim>\<open>notifications/initialized\<close>, \<^verbatim>\<open>tools/list\<close> and
  \<^verbatim>\<open>tools/call\<close> (a missing method counts as the empty string) is answered by one
  response whose \<^verbatim>\<open>result\<close> is the empty dict; the response has no \<^verbatim>\<open>error\<close>.
\<close>

theorem C8_unrecognised_method_empty_result:
  assumes "map_of kvs ''id'' = Some i"
    and "dict_get kvs ''method'' (PStr []) \<notin>
           {PStr ''initialize'', PStr ''notifications/initialized'', PStr ''tools/list'',
            PStr ''tools/call''}"
  shows "main_step B req (Loaded (PDict kvs)) =
           Inr [PDict [(''jsonrpc'', PStr ''2.0''), (''id'', i), (''result'', PDict [])]]"
proof -
  from assms(1) have key: "''id'' \<in> fst ` set kvs"
    by (simp add: has_key_map_of)
  from assms(1) have get: "dict_get kvs ''id'' PNone = i"
    by (simp add: dict_get_def)
  from assms(2) have "handle_request B (PDict kvs) = Inr (PDict [])"
    by (simp add: handle_request_dict)
  with key get show ?thesis
    unfolding main_step_dict by simp
qed

text \<open>
  The theorem at \<^verbatim>\<open>{"jsonrpc":"2.0","id":9,"method":"resources/list"}\<close> and at
  \<^verbatim>\<open>{"id":10}\<close>, which has no method.
\<close>

theorem C8_unrecognised_method_empty_result_witness:
  "main_step plain_builtins None
     (Loaded (PDict [(''jsonrpc'', PStr ''2.0''), (''id'', PInt 9),
                     (''method'', PStr ''resources/list'')]))
   = Inr [PDict [(''jsonrpc'', PStr ''2.0''), (''id'', PInt 9), (''result'', PDict [])]]
   \<and> main_step plain_builtins None (Loaded (PDict [(''id'', PInt 10)]))
   = Inr [PDict [(''jsonrpc'', PStr ''2.0''), (''id'', PInt 10), (''result'', PDict [])]]"
  using C8_unrecognised_method_empty_result
      [where kvs = "[(''jsonrpc'', PStr ''2.0''), (''id'', PInt 9),
                     (''method'', PStr ''resources/list'')]"
         and i = "PInt 9" and B = plain_builtins and req = None]
    C8_unrecognised_method_empty_result
      [where kvs = "[(''id'', PInt 10)]" and i = "PInt 10" and B = plain_builtins and req = None]
  by (simp add: dict_get_def)

subsection \<open>Discovery\<close>

lemma listed_names_tools_list:
  "listed_names (tools_list_result :: 'f pyval) = [PStr ''echo'', PStr ''add'']"
  by (simp add: tools_list_result_def)

text \<open>
  The tools that \<^verbatim>\<open>tools/call\<close> dispatches on are the listed ones: with \<^verbatim>\<open>params\<close>
  a dict, the call ends in the \<^verbatim>\<open>Unknown tool\<close> result exactly when the name is not
  listed.
\<close>

lemma tools_call_unknown_iff:
  assumes "py_get req ''params'' (PDict []) = Inr (PDict ps)"
  shows "(tools_call B req =
            Inr (PDict [(''content'',
                         text_content (''Unknown tool: '' @ py_str B (dict_get ps ''name'' (PStr [])))),
                        (''isError'', PBool True)]))
         = (dict_get ps ''name'' (PStr []) \<notin> set (listed_names (tools_list_result :: 'f pyval)))"
  using assms
  by (auto simp: tools_call_def listed_names_tools_list split: sum.splits)

text \<open>
  C9. The result of \<^verbatim>\<open>tools/list\<close> lists the tools \<^verbatim>\<open>echo\<close> and \<^verbatim>\<open>add\<close>, in the
  order in which \<^verbatim>\<open>tools/call\<close> tests for them, and no name twice; a name is listed
  exactly when \<^verbatim>\<open>tools/call\<close> does not answer it with \<^verbatim>\<open>Unknown tool\<close>. A session of
  the same discovery request twice prints the output of the single request twice.
\<close>

theorem C9_discovery_lists_registered_tools:
  assumes "dict_get kvs ''method'' (PStr []) = PStr ''tools/list''"
  shows "handle_request B (PDict kvs) = Inr tools_list_result
         \<and> listed_names (tools_list_result :: 'f pyval) = [PStr ''echo'', PStr ''add'']
         \<and> distinct (listed_names (tools_list_result :: 'f pyval))
         \<and> (\<forall>req ps. py_get req ''params'' (PDict []) = Inr (PDict ps) \<longrightarrow>
               (tools_call B req =
                  Inr (PDict [(''content'',
                               text_content (''Unknown tool: ''
                                 @ py_str B (dict_get ps ''name'' (PStr [])))),
                              (''isError'', PBool True)]))
               = (dict_get ps ''name'' (PStr []) \<notin> set (listed_names (tools_list_result :: 'f pyval))))
         \<and> main_step B req (Loaded (PDict kvs)) =
               Inr (if ''id'' \<in> fst ` set kvs
                    then [PDict [(''jsonrpc'', PStr ''2.0''), (''id'', dict_get kvs ''id'' PNone),
                                 (''result'', tools_list_result)]]
                    else [])
         \<and> main B [Loaded (PDict kvs), Loaded (PDict kvs)] =
               (fst (main B [Loaded (PDict kvs)]) @ fst (main B [Loaded (PDict kvs)]), None)"
proof -
  from assms have res: "handle_request B (PDict kvs) = Inr tools_list_result"
    by (simp add: handle_request_dict)
  have not_None: "(tools_list_result :: 'f pyval) \<noteq> PNone"
    by (simp add: tools_list_result_def)
  from res not_None have step: "main_step B r (Loaded (PDict kvs)) =
      Inr (if ''id'' \<in> fst ` set kvs
           then [PDict [(''jsonrpc'', PStr ''2.0''), (''id'', dict_get kvs ''id'' PNone),
                        (''result'', tools_list_result)]]
           else [])" for r
    unfolding main_step_dict by simp
  have twice: "main B [Loaded (PDict kvs), Loaded (PDict kvs)] =
      (fst (main B [Loaded (PDict kvs)]) @ fst (main B [Loaded (PDict kvs)]), None)"
    unfolding main_def main_loop_Cons step by simp
  have names: "distinct (listed_names (tools_list_result :: 'f pyval))"
    by (simp add: listed_names_tools_list)
  from res names step [of req] twice show ?thesis
    using listed_names_tools_list tools_call_unknown_iff by blast
qed

text \<open>The theorem at \<^verbatim>\<open>{"jsonrpc":"2.0","id":4,"method":"tools/list"}\<close>.\<close>

theorem C9_discovery_lists_registered_tools_witness:
  "handle_request plain_builtins
     (PDict [(''jsonrpc'', PStr ''2.0''), (''id'', PInt 4), (''method'', PStr ''tools/list'')])
     = Inr tools_list_result
   \<and> listed_names (tools_list_result :: unit pyval) = [PStr ''echo'', PStr ''add'']
   \<and> main plain_builtins
       [Loaded (PDict [(''jsonrpc'', PStr ''2.0''), (''id'', PInt 4),
                       (''method'', PStr ''tools/list'')]),
        Loaded (PDict [(''jsonrpc'', PStr ''2.0''), (''id'', PInt 4),
                       (''method'', PStr ''tools/list'')])]
     = ([PDict [(''jsonrpc'', PStr ''2.0''), (''id'', PInt 4), (''result'', tools_list_result)],
         PDict [(''jsonrpc'', PStr ''2.0''), (''id'', PInt 4), (''result'', tools_list_result)]],
        None)"
proof -
  let ?kvs = "[(''jsonrpc'', PStr ''2.0''), (''id'', PInt 4), (''method'', PStr ''tools/list'')]
                :: (string \<times> unit pyval) list"
  have m: "dict_get ?kvs ''method'' (PStr []) = PStr ''tools/list''"
    by (simp add: dict_get_def)
  have one: "main plain_builtins [Loaded (PDict ?kvs)] =
      ([PDict [(''jsonrpc'', PStr ''2.0''), (''id'', PInt 4), (''result'', tools_list_result)]],
       None)"
    by (simp add: main_def main_try_def handle_request_def dict_get_def tools_list_result_def)
  note inst = C9_discovery_lists_registered_tools [OF m, where B = plain_builtins and req = None]
  from inst have res: "handle_request plain_builtins (PDict ?kvs) = Inr tools_list_result"
    by (rule conjunct1)
  from inst have names: "listed_names (tools_list_result :: unit pyval) = [PStr ''echo'', PStr ''add'']"
    by blast
  from inst have "main plain_builtins [Loaded (PDict ?kvs), Loaded (PDict ?kvs)] =
      (fst (main plain_builtins [Loaded (PDict ?kvs)])
         @ fst (main plain_builtins [Loaded (PDict ?kvs)]), None)"
    by blast
  then have twice: "main plain_builtins [Loaded (PDict ?kvs), Loaded (PDict ?kvs)] =
      ([PDict [(''jsonrpc'', PStr ''2.0''), (''id'', PInt 4), (''result'', tools_list_result)],
        PDict [(''jsonrpc'', PStr ''2.0''), (''id'', PInt 4), (''result'', tools_list_result)]],
       None)"
    unfolding one by simp
  from res names twice show ?thesis
    by (intro conjI)
qed

subsection \<open>The jsonrpc member of a request\<close>

lemma dict_get_cong: "map_of kvs k = map_of kvs' k \<Longrightarrow> dict_get kvs k d = dict_get kvs' k d"
  by (simp add: dict_get_def)

lemma tools_call_params:
  "map_of kvs ''params'' = map_of kvs' ''params''
     \<Longrightarrow> tools_call B (PDict kvs) = tools_call B (PDict kvs')"
  by (simp add: tools_call_def dict_get_def)

lemma handle_request_reads:
  assumes "map_of kvs ''method'' = map_of kvs' ''method''"
    and "map_of kvs ''params'' = map_of kvs' ''params''"
  shows "handle_request B (PDict kvs) = handle_request B (PDict kvs')"
  using assms tools_call_params [OF assms(2), of B]
  by (simp add: handle_request_dict dict_get_def)

lemma main_step_reads:
  assumes "map_of kvs ''method'' = map_of kvs' ''method''"
    and "map_of kvs ''params'' = map_of kvs' ''params''"
    and "map_of kvs ''id'' = map_of kvs' ''id''"
  shows "main_step B req (Loaded (PDict kvs)) = main_step B req (Loaded (PDict kvs'))"
  unfolding main_step_dict handle_request_reads [OF assms(1,2)] has_key_map_of
    dict_get_cong [OF assms(3)] assms(3)
  by (rule refl)

lemma main_step_dict_jsonrpc:
  "\<exists>out. main_step B req (Loaded (PDict kvs)) = Inr out
     \<and> list_all (\<lambda>resp. field resp ''jsonrpc'' = Some (PStr ''2.0'')) out"
  unfolding main_step_dict by (simp split: sum.splits)

lemma main_except_reads:
  "map_of kvs ''id'' = map_of kvs' ''id''
     \<Longrightarrow> main_except B (PDict kvs) e = main_except B (PDict kvs') e"
  by (simp add: main_except_def has_key_map_of dict_get_def)

text \<open>
  A later line on which the decoder raises reads only the \<^verbatim>\<open>id\<close> of the binding
  left behind, so two bindings with the same \<^verbatim>\<open>id\<close> continue alike.
\<close>

lemma main_loop_stale:
  assumes "map_of kvs ''id'' = map_of kvs' ''id''"
    and "r = r' \<or> (r = Some (PDict kvs) \<and> r' = Some (PDict kvs'))"
  shows "main_loop B r ls = main_loop B r' ls"
  using assms(2)
proof (induction ls arbitrary: r r')
  case Nil
  then show ?case by simp
next
  case (Cons l ls)
  show ?case
  proof (cases l)
    case JSONDecodeError
    with Cons show ?thesis by simp
  next
    case (Raised e)
    from Cons.prems have step: "main_step B r l = main_step B r' l"
      unfolding Raised using main_except_reads [OF assms(1), of B e] by auto
    from Cons have "main_loop B r ls = main_loop B r' ls" by blast
    then have tail: "main_loop B (bind_req r l) ls = main_loop B (bind_req r' l) ls"
      unfolding Raised by simp
    show ?thesis unfolding main_loop_Cons step tail by (rule refl)
  next
    case (Loaded new)
    have step: "main_step B r l = main_step B r' l"
      unfolding Loaded by simp
    have tail: "bind_req r l = bind_req r' l"
      unfolding Loaded by simp
    show ?thesis unfolding main_loop_Cons step tail by (rule refl)
  qed
qed

lemma main_line_cong:
  assumes "map_of kvs ''id'' = map_of kvs' ''id''"
    and "\<And>r. main_step B r (Loaded (PDict kvs)) = main_step B r (Loaded (PDict kvs'))"
  shows "main_loop B r (pre @ Loaded (PDict kvs) # post)
           = main_loop B r (pre @ Loaded (PDict kvs') # post)"
proof (induction pre arbitrary: r)
  case Nil
  have "main_loop B (Some (PDict kvs)) post = main_loop B (Some (PDict kvs')) post"
    using assms(1) by (rule main_loop_stale) simp
  then have tail: "main_loop B (bind_req r (Loaded (PDict kvs))) post
      = main_loop B (bind_req r (Loaded (PDict kvs'))) post"
    by simp
  show ?case unfolding append_Nil main_loop_Cons assms(2) [of r] tail by (rule refl)
next
  case (Cons l pre)
  show ?case
    unfolding append_Cons main_loop_Cons Cons.IH [of "bind_req r l"] by (rule refl)
qed

text \<open>
  C10. Two requests (decoded dicts) that agree on every key but \<^verbatim>\<open>jsonrpc\<close>, which
  either may hold with any value or lack, make their iterations print the same, and so do
  two sessions that differ in that one line; every response printed carries the constant
  \<^verbatim>\<open>"jsonrpc": "2.0"\<close>.
\<close>

theorem C10_output_independent_of_jsonrpc:
  assumes "\<forall>k. k \<noteq> ''jsonrpc'' \<longrightarrow> map_of kvs k = map_of kvs' k"
  shows "main_step B req (Loaded (PDict kvs)) = main_step B req (Loaded (PDict kvs'))
         \<and> main B (pre @ Loaded (PDict kvs) # post) = main B (pre @ Loaded (PDict kvs') # post)
         \<and> (\<exists>out. main_step B req (Loaded (PDict kvs)) = Inr out
               \<and> list_all (\<lambda>resp. field resp ''jsonrpc'' = Some (PStr ''2.0'')) out)"
proof -
  from assms have reads: "map_of kvs ''method'' = map_of kvs' ''method''"
      "map_of kvs ''params'' = map_of kvs' ''params''"
    and ids: "map_of kvs ''id'' = map_of kvs' ''id''"
    by simp_all
  have steps: "main_step B r (Loaded (PDict kvs)) = main_step B r (Loaded (PDict kvs'))" for r
    using reads ids by (rule main_step_reads)
  have "main B (pre @ Loaded (PDict kvs) # post) = main B (pre @ Loaded (PDict kvs') # post)"
    unfolding main_def using ids steps by (rule main_line_cong)
  with steps [of req] main_step_dict_jsonrpc [of B req kvs] show ?thesis
    by blast
qed

text \<open>
  The theorem at \<^verbatim>\<open>{"jsonrpc":"1.0","id":5,"method":"initialize"}\<close> and
  \<^verbatim>\<open>{"id":5,"method":"initialize"}\<close>.
\<close>

theorem C10_output_independent_of_jsonrpc_witness:
  "main_step plain_builtins None
     (Loaded (PDict [(''jsonrpc'', PStr ''1.0''), (''id'', PInt 5),
                     (''method'', PStr ''initialize'')]))
   = main_step plain_builtins None
     (Loaded (PDict [(''id'', PInt 5), (''method'', PStr ''initialize'')]))
   \<and> main_step plain_builtins None
     (Loaded (PDict [(''id'', PInt 5), (''method'', PStr ''initialize'')]))
   = Inr [PDict [(''jsonrpc'', PStr ''2.0''), (''id'', PInt 5), (''result'', initialize_result)]]"
proof -
  have "\<forall>k. k \<noteq> ''jsonrpc'' \<longrightarrow>
      map_of [(''jsonrpc'', PStr ''1.0''), (''id'', PInt 5), (''method'', PStr ''initialize'')] k
      = map_of [(''id'', PInt 5), (''method'', PStr ''initialize'' :: unit pyval)] k"
    by simp
  from C10_output_independent_of_jsonrpc
    [OF this, where B = plain_builtins and req = None and pre = "[]" and post = "[]"]
  have "main_step plain_builtins None
     (Loaded (PDict [(''jsonrpc'', PStr ''1.0''), (''id'', PInt 5),
                     (''method'', PStr ''initialize'')]))
   = main_step plain_builtins None
     (Loaded (PDict [(''id'', PInt 5), (''method'', PStr ''initialize'')]))"
    by blast
  moreover have "main_step plain_builtins None
     (Loaded (PDict [(''id'', PInt 5), (''method'', PStr ''initialize'')]))
   = Inr [PDict [(''jsonrpc'', PStr ''2.0''), (''id'', PInt 5), (''result'', initialize_result)]]"
    by (simp add: main_try_def handle_request_def dict_get_def initialize_result_def)
  ultimately show ?thesis by blast
qed

end
